theory Spec2Isabelle
  imports Main "HOL-Library.Word"
begin

section \<open>College counselling: the program of project.cpp\<close>

text \<open>
  The program reads a table of rank intervals from a text file, looks a rank up in it
  and prints the result of three allocation strategies. The development follows
  \<^verbatim>\<open>project.cpp\<close> top to bottom. C++ exceptions are values of the type \<open>error\<close>
  and a function that may throw returns \<open>error + 'a\<close>, \<open>Inl\<close> being the exception.
  Ranks are \<open>int\<close>: the program only compares them, and the one place where the width of
  the C++ \<open>int\<close> decides anything for a rank, the range check of \<open>std::stoi\<close> and of the
  stream extraction, is written out. The instance counter, which the program increments,
  is a 32-bit word.
\<close>

subsection \<open>Exceptions\<close>

text \<open>
  Every \<^verbatim>\<open>throw\<close> of the program is a \<open>std::runtime_error\<close> with a message;
  \<open>std::stoi\<close> throws \<open>std::invalid_argument\<close> or \<open>std::out_of_range\<close>, and
  \<open>std::string::substr\<close> throws \<open>std::out_of_range\<close>. All three classes derive from
  \<open>std::exception\<close>.
\<close>

datatype error = runtime_error string | invalid_argument | out_of_range

definition and_then :: "error + 'a \<Rightarrow> ('a \<Rightarrow> error + 'b) \<Rightarrow> error + 'b" where
  "and_then m f = (case m of Inl e \<Rightarrow> Inl e | Inr x \<Rightarrow> f x)"

subsection \<open>The library functions the program calls\<close>

text \<open>
  \<open>std::string::find(ch)\<close>: the index of the first occurrence, \<open>None\<close> for
  \<open>std::string::npos\<close>.
\<close>

fun find_from :: "string \<Rightarrow> char \<Rightarrow> nat \<Rightarrow> nat option" where
  "find_from [] ch i = None"
| "find_from (c # cs) ch i = (if c = ch then Some i else find_from cs ch (Suc i))"

definition string_find :: "string \<Rightarrow> char \<Rightarrow> nat option" where
  "string_find s ch = find_from s ch 0"

text \<open>
  \<open>std::string::substr(pos, count)\<close> and \<open>substr(pos)\<close>: \<open>std::out_of_range\<close> when
  \<open>pos > size()\<close>, otherwise at most \<open>count\<close> characters from \<open>pos\<close> on. (The program
  calls them at positions that \<open>find\<close> returned, so they never throw there; see
  \<open>parse_line_split\<close> below.)
\<close>

definition substr :: "string \<Rightarrow> nat \<Rightarrow> nat \<Rightarrow> error + string" where
  "substr s pos count = (if length s < pos then Inl out_of_range else Inr (take count (drop pos s)))"

definition substr_from :: "string \<Rightarrow> nat \<Rightarrow> error + string" where
  "substr_from s pos = (if length s < pos then Inl out_of_range else Inr (drop pos s))"

text \<open>
  \<open>isspace\<close> and \<open>isdigit\<close> in the "C" locale (the program never sets another one):
  space, \<open>\t\<close>, \<open>\n\<close>, \<open>\v\<close>, \<open>\f\<close>, \<open>\r\<close>, and \<open>0\<close> to \<open>9\<close>.
\<close>

definition isspace :: "char \<Rightarrow> bool" where
  "isspace c = (c = CHR 0x20 \<or> c = CHR 0x09 \<or> c = CHR 0x0A \<or> c = CHR 0x0B \<or> c = CHR 0x0C \<or> c = CHR 0x0D)"

definition isdigit :: "char \<Rightarrow> bool" where
  "isdigit c = (48 \<le> (of_char c :: nat) \<and> (of_char c :: nat) \<le> 57)"

fun digits_value :: "int \<Rightarrow> string \<Rightarrow> int" where
  "digits_value acc [] = acc"
| "digits_value acc (c # cs) = digits_value (10 * acc + (int (of_char c) - 48)) cs"

text \<open>
  The subject sequence of \<open>strtol\<close> in base 10, which is also the input field of the
  stream extraction of an \<open>int\<close>: leading white space is skipped, then one optional sign,
  then the longest run of decimal digits; whatever follows is left alone. \<open>None\<close> when
  there is no digit (no conversion), otherwise the value of the digits with the sign,
  as a mathematical integer.
\<close>

definition scan_decimal :: "string \<Rightarrow> int option" where
  "scan_decimal str =
     (let s1 = dropWhile isspace str;
          neg = (case s1 of [] \<Rightarrow> False | c # _ \<Rightarrow> c = CHR ''-'');
          s2 = (case s1 of [] \<Rightarrow> [] | c # cs \<Rightarrow> if c = CHR ''-'' \<or> c = CHR ''+'' then cs else s1);
          ds = takeWhile isdigit s2
      in if ds = [] then None
         else Some (if neg then - digits_value 0 ds else digits_value 0 ds))"

definition INT_MIN :: int where "INT_MIN = - (2 ^ 31)"
definition INT_MAX :: int where "INT_MAX = 2 ^ 31 - 1"

text \<open>
  \<open>std::stoi(str)\<close>: \<open>std::invalid_argument\<close> when no conversion could be performed,
  \<open>std::out_of_range\<close> when the value is not an \<open>int\<close>. It does not look at what
  follows the digits.
\<close>

definition stoi :: "string \<Rightarrow> error + int" where
  "stoi str =
     (case scan_decimal str of
        None \<Rightarrow> Inl invalid_argument
      | Some v \<Rightarrow> if v < INT_MIN \<or> INT_MAX < v then Inl out_of_range else Inr v)"

text \<open>
  \<open>std::getline(stream, line)\<close> on the unread rest of a stream: it fails (\<open>None\<close>) when
  nothing is left, otherwise it takes the characters up to the first \<open>\n\<close>, which it
  drops, or up to the end.
\<close>

definition getline :: "string \<Rightarrow> (string \<times> string) option" where
  "getline s =
     (if s = [] then None
      else Some (takeWhile (\<lambda>c. c \<noteq> CHR 0x0A) s, drop 1 (dropWhile (\<lambda>c. c \<noteq> CHR 0x0A) s)))"

text \<open>
  The lines of a file, as the loop \<^verbatim>\<open>while (getline(file, line))\<close> sees them one after
  the other, in the order of the file.
\<close>

function file_lines :: "string \<Rightarrow> string list" where
  "file_lines content =
     (case getline content of
        None \<Rightarrow> []
      | Some (line, rest) \<Rightarrow> line # file_lines rest)"
  by pat_completeness auto
termination
proof (relation "measure length")
  show "wf (measure length)" by simp
next
  fix content :: string and x2 line rest
  assume g: "getline content = Some x2" and x: "(line, rest) = x2"
  from g x have ne: "content \<noteq> []"
    and r: "rest = drop 1 (dropWhile (\<lambda>c. c \<noteq> CHR 0x0A) content)"
    by (auto simp: getline_def split: if_splits)
  have "length (dropWhile (\<lambda>c. c \<noteq> CHR 0x0A) content) \<le> length content"
    by (rule length_dropWhile_le)
  moreover have "0 < length content" using ne by simp
  ultimately have "length rest < length content"
    using r by (cases "dropWhile (\<lambda>c. c \<noteq> CHR 0x0A) content") auto
  then show "(rest, content) \<in> measure length"
    by simp
qed

subsection \<open>RankIntervalStrategy\<close>

record CollegeData =
  rankStart :: int
  rankEnd :: int
  college :: string

text \<open>The files that can be opened, by path, with their contents.\<close>

type_synonym filesystem = "string \<rightharpoonup> string"

text \<open>The body of the \<^verbatim>\<open>while\<close> loop of \<open>loadCollegesData\<close>, for one line.\<close>

definition parse_line :: "string \<Rightarrow> error + CollegeData" where
  "parse_line line =
     (case string_find line (CHR '':'') of
        None \<Rightarrow> Inl (runtime_error ''Error: Invalid data format in the data file.'')
      | Some colonPos \<Rightarrow>
          and_then (substr line 0 colonPos) (\<lambda>rankRange.
          and_then (substr_from line (colonPos + 1)) (\<lambda>college.
            (case string_find rankRange (CHR ''-'') of
               None \<Rightarrow> Inl (runtime_error ''Error: Invalid rank range in the data file.'')
             | Some hyphenPos \<Rightarrow>
                 and_then (substr rankRange 0 hyphenPos) (\<lambda>startText.
                 and_then (stoi startText) (\<lambda>rankStart.
                 and_then (substr_from rankRange (hyphenPos + 1)) (\<lambda>endText.
                 and_then (stoi endText) (\<lambda>rankEnd.
                   Inr \<lparr>rankStart = rankStart, rankEnd = rankEnd, college = college\<rparr>))))))))"

function loadCollegesData_loop :: "string \<Rightarrow> CollegeData list \<Rightarrow> error + CollegeData list" where
  "loadCollegesData_loop content collegesData =
     (case getline content of
        None \<Rightarrow> Inr collegesData
      | Some (line, rest) \<Rightarrow>
          (case parse_line line of
             Inl e \<Rightarrow> Inl e
           | Inr d \<Rightarrow> loadCollegesData_loop rest (collegesData @ [d])))"
  by pat_completeness auto
termination
proof (relation "measure (\<lambda>(content, collegesData). length content)")
  show "wf (measure (\<lambda>(content, collegesData). length content))" by simp
next
  fix content :: string and collegesData :: "CollegeData list" and x2 line rest x2a
  assume g: "getline content = Some x2" and x: "(line, rest) = x2"
  from g x have ne: "content \<noteq> []"
    and r: "rest = drop 1 (dropWhile (\<lambda>c. c \<noteq> CHR 0x0A) content)"
    by (auto simp: getline_def split: if_splits)
  have "length (dropWhile (\<lambda>c. c \<noteq> CHR 0x0A) content) \<le> length content"
    by (rule length_dropWhile_le)
  moreover have "0 < length content" using ne by simp
  ultimately have "length rest < length content"
    using r by (cases "dropWhile (\<lambda>c. c \<noteq> CHR 0x0A) content") auto
  then show "((rest, collegesData @ [x2a]), (content, collegesData))
      \<in> measure (\<lambda>(content, collegesData). length content)"
    by simp
qed

definition loadCollegesData :: "filesystem \<Rightarrow> string \<Rightarrow> error + CollegeData list" where
  "loadCollegesData fs dataFile =
     (case fs dataFile of
        None \<Rightarrow> Inl (runtime_error ''Error: Cannot open data file.'')
      | Some content \<Rightarrow> loadCollegesData_loop content [])"

text \<open>
  The exceptions that reading the data file can end with once the file is open: the two
  \<^verbatim>\<open>throw\<close> statements of the loop and the exceptions of the library calls in it.
\<close>

definition DataFormatError :: "error \<Rightarrow> bool" where
  "DataFormatError e =
     (e = runtime_error ''Error: Invalid data format in the data file.'' \<or>
      e = runtime_error ''Error: Invalid rank range in the data file.'' \<or>
      e = invalid_argument \<or> e = out_of_range)"

definition no_college :: string where
  "no_college = ''No college allocated for your rank.''"

fun RankIntervalStrategy_allocateCollege :: "CollegeData list \<Rightarrow> int \<Rightarrow> string" where
  "RankIntervalStrategy_allocateCollege [] userRank = no_college"
| "RankIntervalStrategy_allocateCollege (d # ds) userRank =
     (if userRank \<ge> rankStart d \<and> userRank \<le> rankEnd d then college d
      else RankIntervalStrategy_allocateCollege ds userRank)"

text \<open>
  The static member \<open>totalInstances\<close>, the only state of the program that outlives a
  call. It is a C++ \<open>int\<close>, 32 bits wide and read as a signed number (\<open>sint\<close>), and it
  is initialised to 0 (line 93). The only statement that writes it is the increment in
  the constructor. C++ leaves the increment of the largest \<open>int\<close> undefined; the
  compiled program wraps around to the smallest one, and so does the word.
\<close>

record statics =
  totalInstances :: "32 word"

definition initial_statics :: statics where
  "initial_statics = \<lparr>totalInstances = 0\<rparr>"

definition getTotalInstances :: "statics \<Rightarrow> 32 word" where
  "getTotalInstances st = totalInstances st"

subsection \<open>The strategies\<close>

text \<open>
  The classes derived from \<open>AllocationStrategy\<close>; a \<open>RankIntervalStrategy\<close> object holds
  its vector \<open>collegesData\<close>, the other two have no members.
\<close>

datatype AllocationStrategy =
  RankIntervalStrategy "CollegeData list"
| AnotherStrategy
| YetAnotherStrategy

definition AnotherStrategy_allocateCollege :: "int \<Rightarrow> string" where
  "AnotherStrategy_allocateCollege userRank = ''not eligible for round two''"

definition YetAnotherStrategy_allocateCollege :: "int \<Rightarrow> string" where
  "YetAnotherStrategy_allocateCollege userRank = ''not eligible for round three''"

text \<open>The virtual call \<open>strategy.allocateCollege(userRank)\<close>.\<close>

fun allocateCollege :: "AllocationStrategy \<Rightarrow> int \<Rightarrow> string" where
  "allocateCollege (RankIntervalStrategy collegesData) userRank =
     RankIntervalStrategy_allocateCollege collegesData userRank"
| "allocateCollege AnotherStrategy userRank = AnotherStrategy_allocateCollege userRank"
| "allocateCollege YetAnotherStrategy userRank = YetAnotherStrategy_allocateCollege userRank"

text \<open>
  The constructor \<open>RankIntervalStrategy(dataFile)\<close>: when \<open>loadCollegesData\<close> throws, the
  body stops there and the increment of \<open>totalInstances\<close> is not reached.
\<close>

definition RankIntervalStrategy_new ::
  "filesystem \<Rightarrow> string \<Rightarrow> statics \<Rightarrow> statics \<times> (error + AllocationStrategy)" where
  "RankIntervalStrategy_new fs dataFile st =
     (case loadCollegesData fs dataFile of
        Inl e \<Rightarrow> (st, Inl e)
      | Inr collegesData \<Rightarrow>
          (st\<lparr>totalInstances := totalInstances st + 1\<rparr>, Inr (RankIntervalStrategy collegesData)))"

text \<open>The delegating constructor \<open>RankIntervalStrategy()\<close>.\<close>

definition RankIntervalStrategy_default ::
  "filesystem \<Rightarrow> statics \<Rightarrow> statics \<times> (error + AllocationStrategy)" where
  "RankIntervalStrategy_default fs st = RankIntervalStrategy_new fs ''default_data.txt'' st"

subsection \<open>Applications and the admission system\<close>

record CollegeApplication =
  applicantName :: string
  applicantRank :: int

definition getApplicantName :: "CollegeApplication \<Rightarrow> string" where
  "getApplicantName application = applicantName application"

definition getApplicantRank :: "CollegeApplication \<Rightarrow> int" where
  "getApplicantRank application = applicantRank application"

definition CollegeAdmissionSystem_allocateCollege ::
  "AllocationStrategy \<Rightarrow> CollegeApplication \<Rightarrow> string" where
  "CollegeAdmissionSystem_allocateCollege strategy application =
     allocateCollege strategy (getApplicantRank application)"

definition getRankAllocation :: "AllocationStrategy \<Rightarrow> CollegeApplication \<Rightarrow> string" where
  "getRankAllocation strategy application =
     CollegeAdmissionSystem_allocateCollege strategy application"

subsection \<open>The driver\<close>

text \<open>
  What a run of \<open>main\<close> sees: the files, the text on standard input, and the text that
  \<open>what()\<close> returns for the two exceptions of \<open>std::stoi\<close>, which the implementation
  of the library chooses.
\<close>

record world =
  files :: filesystem
  stdin :: string
  what_invalid_argument :: string
  what_out_of_range :: string

fun what :: "world \<Rightarrow> error \<Rightarrow> string" where
  "what w (runtime_error msg) = msg"
| "what w invalid_argument = what_invalid_argument w"
| "what w out_of_range = what_out_of_range w"

text \<open>
  \<open>std::cout << n\<close> for an \<open>int\<close>: a minus sign when negative, then the decimal
  digits, which \<open>put_digits\<close> produces from the last one backwards.
\<close>

fun put_digits :: "nat \<Rightarrow> string \<Rightarrow> string" where
  "put_digits n buf =
     (let buf' = char_of (n mod 10 + 48) # buf
      in if n div 10 = 0 then buf' else put_digits (n div 10) buf')"

definition string_of_int :: "int \<Rightarrow> string" where
  "string_of_int i = (if i < 0 then CHR ''-'' # put_digits (nat (- i)) [] else put_digits (nat i) [])"

text \<open>
  \<open>displayAllocationResult\<close> appends one line to what standard output holds so far
  (\<open>std::endl\<close> is a newline).
\<close>

definition displayAllocationResult :: "string \<Rightarrow> string \<Rightarrow> string" where
  "displayAllocationResult cout result = cout @ ''Result: '' @ result @ [CHR 0x0A]"

text \<open>
  \<open>std::getline(std::cin >> std::ws, userName)\<close>: white space is skipped, then a line is
  read; the name stays empty when nothing is left. The second component is the unread
  rest of standard input.
\<close>

definition read_name :: "string \<Rightarrow> string \<times> string" where
  "read_name input =
     (let s = dropWhile isspace input
      in case getline s of None \<Rightarrow> ([], s) | Some (userName, rest) \<Rightarrow> (userName, rest))"

text \<open>
  \<open>std::cin >> userRank\<close>: the extraction fails (\<open>None\<close>) when the input field holds no
  digit, among which when nothing is left to read, and when the value is not an \<open>int\<close>.
\<close>

definition read_int :: "string \<Rightarrow> int option" where
  "read_int input =
     (case scan_decimal input of
        None \<Rightarrow> None
      | Some v \<Rightarrow> if v < INT_MIN \<or> INT_MAX < v then None else Some v)"

text \<open>
  \<open>std::getline(pathFile, projectFilePath)\<close> on the opened \<open>data.txt\<close>: its first line,
  and the empty string when the file is empty.
\<close>

definition read_path :: "string \<Rightarrow> string" where
  "read_path pathFile = (case getline pathFile of None \<Rightarrow> [] | Some (l, rest) \<Rightarrow> l)"

definition invalid_rank :: string where
  "invalid_rank = ''Error: Invalid input for rank. Please enter a valid integer.''"

definition prompts :: string where
  "prompts = ''Enter your name: '' @ ''Enter your rank: ''"

text \<open>
  The \<^verbatim>\<open>try\<close> block of \<open>main\<close>: the statics and standard output at the point where the
  block ends, and the exception that ended it, if one did.
\<close>

definition main_try :: "world \<Rightarrow> statics \<times> string \<times> (error + unit)" where
  "main_try w =
     (case files w ''data.txt'' of
        None \<Rightarrow> (initial_statics, [], Inl (runtime_error ''Error: Cannot open data.txt''))
      | Some pathFile \<Rightarrow>
          (let projectFilePath = read_path pathFile
           in case files w projectFilePath of
                None \<Rightarrow> (initial_statics, [], Inl (runtime_error ''Error: Cannot open project.txt''))
              | Some projectFile \<Rightarrow>
                  (let (userName, input) = read_name (stdin w)
                   in case read_int input of
                        None \<Rightarrow>
                          (initial_statics, prompts, Inl (runtime_error invalid_rank))
                      | Some userRank \<Rightarrow>
                          (case RankIntervalStrategy_new (files w) projectFilePath initial_statics of
                             (st, Inl e) \<Rightarrow> (st, prompts, Inl e)
                           | (st, Inr rankStrategy) \<Rightarrow>
                               (let application = \<lparr>applicantName = userName, applicantRank = userRank\<rparr>;
                                    resultRank = getRankAllocation rankStrategy application;
                                    cout1 = displayAllocationResult prompts resultRank;
                                    resultAnother = getRankAllocation AnotherStrategy application;
                                    cout2 = displayAllocationResult cout1 resultAnother;
                                    resultYetAnother = getRankAllocation YetAnotherStrategy application;
                                    cout3 = displayAllocationResult cout2 resultYetAnother;
                                    cout4 = cout3 @ ''Total instances of RankIntervalStrategy: ''
                                              @ string_of_int (sint (getTotalInstances st)) @ [CHR 0x0A]
                                in (st, cout4, Inr ()))))))"

text \<open>
  A finished run: both output streams, the value \<open>main\<close> returns and the statics at
  the end. The handler of \<open>std::exception\<close> prints \<open>what()\<close> and falls through to
  \<^verbatim>\<open>return 0\<close>.
\<close>

record run =
  cout :: string
  cerr :: string
  exit_status :: int
  statics_at_exit :: statics

definition main :: "world \<Rightarrow> run" where
  "main w =
     (case main_try w of
        (st, out, Inr _) \<Rightarrow> \<lparr>cout = out, cerr = [], exit_status = 0, statics_at_exit = st\<rparr>
      | (st, out, Inl e) \<Rightarrow>
          \<lparr>cout = out, cerr = what w e @ [CHR 0x0A], exit_status = 0, statics_at_exit = st\<rparr>)"

subsection \<open>Example data\<close>

text \<open>A data file whose two intervals overlap on the ranks 150 to 200.\<close>

definition overlap_file :: string where
  "overlap_file = ''100-200:Tech U'' @ [CHR 0x0A] @ ''150-300:State College'' @ [CHR 0x0A]"

definition overlap_table :: "CollegeData list" where
  "overlap_table = [\<lparr>rankStart = 100, rankEnd = 200, college = ''Tech U''\<rparr>,
     \<lparr>rankStart = 150, rankEnd = 300, college = ''State College''\<rparr>]"

text \<open>A directory with that file and a file whose only line has no colon.\<close>

definition example_files :: filesystem where
  "example_files = [''ranks.txt'' \<mapsto> overlap_file, ''broken.txt'' \<mapsto> ''1-5'']"

text \<open>
  Two files with a malformed line: one whose second line has no hyphen before the
  colon, one whose only line has no colon.
\<close>

definition malformed_files :: filesystem where
  "malformed_files =
     [''no_hyphen.txt'' \<mapsto> ''1-5:First'' @ [CHR 0x0A] @ ''abc:College'' @ [CHR 0x0A],
      ''no_colon.txt'' \<mapsto> ''1-5'']"

text \<open>A directory that holds the file the delegating constructor reads.\<close>

definition default_files :: filesystem where
  "default_files = [''default_data.txt'' \<mapsto> ''1-10:Default College'' @ [CHR 0x0A]]"

text \<open>
  A run in the directory above: \<open>data.txt\<close> names the data file, and the user types
  \<open>input\<close>.
\<close>

definition example_world :: "string \<Rightarrow> string \<Rightarrow> world" where
  "example_world dataset input =
     \<lparr>files = example_files(''data.txt'' \<mapsto> dataset @ [CHR 0x0A]), stdin = input,
      what_invalid_argument = ''stoi'', what_out_of_range = ''stoi''\<rparr>"

section \<open>Properties\<close>

subsection \<open>The table and the allocation\<close>

declare loadCollegesData_loop.simps [simp del] file_lines.simps [simp del]

lemma allocate_first_index:
  "i < length ds \<Longrightarrow> rankStart (ds ! i) \<le> r \<and> r \<le> rankEnd (ds ! i) \<Longrightarrow>
   (\<forall>j<i. \<not> (rankStart (ds ! j) \<le> r \<and> r \<le> rankEnd (ds ! j))) \<Longrightarrow>
   RankIntervalStrategy_allocateCollege ds r = college (ds ! i)"
proof (induction ds arbitrary: i)
  case Nil
  then show ?case by simp
next
  case (Cons d ds)
  show ?case
  proof (cases i)
    case 0
    with Cons.prems show ?thesis by simp
  next
    case (Suc k)
    from Cons.prems(3) Suc have d: "\<not> (rankStart d \<le> r \<and> r \<le> rankEnd d)"
      by (metis nth_Cons_0 zero_less_Suc)
    have k: "k < length ds" using Cons.prems(1) Suc by simp
    have hit: "rankStart (ds ! k) \<le> r \<and> r \<le> rankEnd (ds ! k)"
      using Cons.prems(2) Suc by simp
    have before: "\<forall>j<k. \<not> (rankStart (ds ! j) \<le> r \<and> r \<le> rankEnd (ds ! j))"
    proof (intro allI impI)
      fix j assume "j < k"
      then have "Suc j < i" using Suc by simp
      with Cons.prems(3) have "\<not> (rankStart ((d # ds) ! Suc j) \<le> r \<and> r \<le> rankEnd ((d # ds) ! Suc j))"
        by blast
      then show "\<not> (rankStart (ds ! j) \<le> r \<and> r \<le> rankEnd (ds ! j))" by simp
    qed
    from Cons.IH [OF k hit before] d Suc show ?thesis by auto
  qed
qed

lemma allocate_no_match:
  "(\<forall>d \<in> set ds. \<not> (rankStart d \<le> r \<and> r \<le> rankEnd d)) \<Longrightarrow>
   RankIntervalStrategy_allocateCollege ds r = no_college"
  by (induction ds) auto

lemma loop_table:
  "loadCollegesData_loop content acc = Inr t \<longleftrightarrow>
   (\<exists>ts. t = acc @ ts \<and> map parse_line (file_lines content) = map Inr ts)"
proof (induction content acc arbitrary: t rule: loadCollegesData_loop.induct)
  case (1 content acc)
  show ?case
  proof (cases "getline content")
    case None
    then show ?thesis
      by (simp add: loadCollegesData_loop.simps [of content] file_lines.simps [of content]) auto
  next
    case (Some p)
    obtain line rest where p: "p = (line, rest)" by (cases p)
    show ?thesis
    proof (cases "parse_line line")
      case (Inl e)
      with Some p show ?thesis
        by (auto simp add: loadCollegesData_loop.simps [of content] file_lines.simps [of content]
              map_eq_Cons_conv)
    next
      case (Inr d)
      have IH: "\<And>t. loadCollegesData_loop rest (acc @ [d]) = Inr t \<longleftrightarrow>
        (\<exists>ts. t = (acc @ [d]) @ ts \<and> map parse_line (file_lines rest) = map Inr ts)"
        using "1.IH" [OF Some p [symmetric] Inr] .
      have "loadCollegesData_loop content acc = loadCollegesData_loop rest (acc @ [d])"
        using Some p Inr by (simp add: loadCollegesData_loop.simps [of content])
      moreover have "file_lines content = line # file_lines rest"
        using Some p by (simp add: file_lines.simps [of content])
      ultimately show ?thesis
        using Inr IH by (auto simp: map_eq_Cons_conv Cons_eq_map_conv)
    qed
  qed
qed


lemma load_table:
  "fs dataFile = Some content \<Longrightarrow>
   loadCollegesData fs dataFile = Inr t \<longleftrightarrow> map parse_line (file_lines content) = map Inr t"
  by (simp add: loadCollegesData_def loop_table)

text \<open>
  C1. Once \<open>loadCollegesData\<close> has read a file, the table holds the records of the
  lines of the file, one per line and in the order of the file, and
  \<open>RankIntervalStrategy::allocateCollege\<close> returns the college of the first record of
  the table whose interval contains the rank (\<open>rankStart \<le> rank \<le> rankEnd\<close>): an
  earlier line wins over a later one with an overlapping interval. When no interval
  contains the rank the result is the text "No college allocated for your rank.".
\<close>

theorem allocateCollege_first_in_file_order:
  assumes "fs dataFile = Some content"
    and "loadCollegesData fs dataFile = Inr collegesData"
  shows "map parse_line (file_lines content) = map Inr collegesData \<and>
    (\<forall>i<length collegesData.
       rankStart (collegesData ! i) \<le> userRank \<and> userRank \<le> rankEnd (collegesData ! i) \<and>
       (\<forall>j<i. \<not> (rankStart (collegesData ! j) \<le> userRank \<and> userRank \<le> rankEnd (collegesData ! j)))
       \<longrightarrow> RankIntervalStrategy_allocateCollege collegesData userRank = college (collegesData ! i)) \<and>
    ((\<forall>d\<in>set collegesData. \<not> (rankStart d \<le> userRank \<and> userRank \<le> rankEnd d))
       \<longrightarrow> RankIntervalStrategy_allocateCollege collegesData userRank
             = ''No college allocated for your rank.'')"
proof (intro conjI allI impI)
  show "map parse_line (file_lines content) = map Inr collegesData"
    using assms by (simp add: load_table)
next
  fix i
  assume "i < length collegesData"
    and "rankStart (collegesData ! i) \<le> userRank \<and> userRank \<le> rankEnd (collegesData ! i) \<and>
       (\<forall>j<i. \<not> (rankStart (collegesData ! j) \<le> userRank \<and> userRank \<le> rankEnd (collegesData ! j)))"
  then show "RankIntervalStrategy_allocateCollege collegesData userRank = college (collegesData ! i)"
    by (intro allocate_first_index) auto
next
  assume "\<forall>d\<in>set collegesData. \<not> (rankStart d \<le> userRank \<and> userRank \<le> rankEnd d)"
  then show "RankIntervalStrategy_allocateCollege collegesData userRank
      = ''No college allocated for your rank.''"
    using allocate_no_match [of collegesData userRank] by (simp add: no_college_def)
qed

theorem allocateCollege_first_in_file_order_witness:
  "loadCollegesData [''ranks.txt'' \<mapsto> overlap_file] ''ranks.txt'' = Inr overlap_table \<and>
   file_lines overlap_file = [''100-200:Tech U'', ''150-300:State College''] \<and>
   RankIntervalStrategy_allocateCollege overlap_table 150 = ''Tech U'' \<and>
   RankIntervalStrategy_allocateCollege overlap_table 250 = ''State College'' \<and>
   RankIntervalStrategy_allocateCollege overlap_table 50 = ''No college allocated for your rank.''"
proof -
  have opened: "[''ranks.txt'' \<mapsto> overlap_file] ''ranks.txt'' = Some overlap_file"
    by simp
  have loaded: "loadCollegesData [''ranks.txt'' \<mapsto> overlap_file] ''ranks.txt'' = Inr overlap_table"
    by code_simp
  have lines: "file_lines overlap_file = [''100-200:Tech U'', ''150-300:State College'']"
    by code_simp
  note first = allocateCollege_first_in_file_order [OF opened loaded]
  have "RankIntervalStrategy_allocateCollege overlap_table 150 = college (overlap_table ! 0)"
    using first [of 150] by (simp add: overlap_table_def)
  moreover have "RankIntervalStrategy_allocateCollege overlap_table 250 = college (overlap_table ! 1)"
    using first [of 250] by (simp add: overlap_table_def)
  moreover have "RankIntervalStrategy_allocateCollege overlap_table 50
      = ''No college allocated for your rank.''"
    using first [of 50] by (simp add: overlap_table_def)
  ultimately show ?thesis
    using loaded lines by (simp add: overlap_table_def)
qed

lemma file_lines_empty: "file_lines content = [] \<longleftrightarrow> content = []"
  by (simp add: file_lines.simps [of content] getline_def split: option.splits)

text \<open>
  C10. A data file with no line at all, which is an empty file, is read without an
  exception and gives the empty table; the constructor succeeds on it, and
  \<open>allocateCollege\<close> on the empty table returns "No college allocated for your rank."
  for every rank.
\<close>

theorem empty_dataset_allocates_nothing:
  assumes "fs dataFile = Some content" and "file_lines content = []"
  shows "content = [] \<and> loadCollegesData fs dataFile = Inr [] \<and>
    RankIntervalStrategy_new fs dataFile st
      = (st\<lparr>totalInstances := totalInstances st + 1\<rparr>, Inr (RankIntervalStrategy [])) \<and>
    (\<forall>userRank. allocateCollege (RankIntervalStrategy []) userRank
       = ''No college allocated for your rank.'')"
proof -
  have "loadCollegesData fs dataFile = Inr []"
    using assms by (simp add: load_table)
  moreover have "content = []"
    using assms(2) by (simp add: file_lines_empty)
  ultimately show ?thesis
    by (simp add: RankIntervalStrategy_new_def no_college_def)
qed

theorem empty_dataset_allocates_nothing_witness:
  "file_lines [] = [] \<and>
   loadCollegesData [''empty.txt'' \<mapsto> []] ''empty.txt'' = Inr [] \<and>
   allocateCollege (RankIntervalStrategy []) 150 = ''No college allocated for your rank.''"
proof -
  have opened: "[''empty.txt'' \<mapsto> []] ''empty.txt'' = Some []" by simp
  have none: "file_lines [] = []" by code_simp
  from empty_dataset_allocates_nothing
      [of "[''empty.txt'' \<mapsto> []]" "''empty.txt''" "[]" initial_statics, OF opened none] none
  show ?thesis by simp
qed

subsection \<open>The strategies that ignore the rank\<close>

text \<open>
  C6. \<open>AnotherStrategy::allocateCollege\<close> returns "not eligible for round two" and
  \<open>YetAnotherStrategy::allocateCollege\<close> returns "not eligible for round three" for
  every rank, so each returns the same text for any two ranks \<open>r1\<close> and \<open>r2\<close>.
\<close>

theorem fixed_strategies_ignore_rank:
  "allocateCollege AnotherStrategy r1 = ''not eligible for round two'' \<and>
   allocateCollege AnotherStrategy r2 = ''not eligible for round two'' \<and>
   allocateCollege YetAnotherStrategy r1 = ''not eligible for round three'' \<and>
   allocateCollege YetAnotherStrategy r2 = ''not eligible for round three'' \<and>
   AnotherStrategy_allocateCollege r1 = AnotherStrategy_allocateCollege r2 \<and>
   YetAnotherStrategy_allocateCollege r1 = YetAnotherStrategy_allocateCollege r2"
  by (simp add: AnotherStrategy_allocateCollege_def YetAnotherStrategy_allocateCollege_def)

theorem fixed_strategies_ignore_rank_witness:
  "allocateCollege AnotherStrategy 1 = allocateCollege AnotherStrategy 999999 \<and>
   allocateCollege YetAnotherStrategy 1 = allocateCollege YetAnotherStrategy 999999"
  using fixed_strategies_ignore_rank [of 1 999999] by simp

subsection \<open>The instance counter\<close>

lemma sint_incr: "sint (n :: 32 word) < INT_MAX \<Longrightarrow> sint (n + 1) = sint n + 1"
proof -
  assume below: "sint n < INT_MAX"
  have above: "- (2 ^ 31) \<le> sint n"
    using sint_ge [of n] by simp
  have "sint (n + 1) = signed_take_bit 31 (sint n + 1)"
    by (simp add: sint_word_ariths)
  also have "\<dots> = sint n + 1"
    using above below by (intro signed_take_bit_int_eq_self) (simp_all add: INT_MAX_def)
  finally show ?thesis .
qed

lemma new_fst:
  "totalInstances (fst (RankIntervalStrategy_new fs p s))
     = totalInstances s + (if isl (loadCollegesData fs p) then 0 else 1)"
  by (simp add: RankIntervalStrategy_new_def split: sum.splits)

lemma new_fst_sint:
  "sint (totalInstances s) < INT_MAX \<Longrightarrow>
   sint (totalInstances (fst (RankIntervalStrategy_new fs p s)))
     = sint (totalInstances s) + (if isl (loadCollegesData fs p) then 0 else 1)"
  by (simp add: new_fst sint_incr)

lemma constructions_count:
  "sint (totalInstances st)
     + int (length (filter (\<lambda>p. \<not> isl (loadCollegesData fs p)) paths)) \<le> INT_MAX \<Longrightarrow>
   sint (totalInstances (fold (\<lambda>p s. fst (RankIntervalStrategy_new fs p s)) paths st))
     = sint (totalInstances st)
       + int (length (filter (\<lambda>p. \<not> isl (loadCollegesData fs p)) paths))"
proof (induction paths arbitrary: st)
  case Nil
  then show ?case by simp
next
  case (Cons p paths)
  let ?st' = "fst (RankIntervalStrategy_new fs p st)"
  let ?rest = "int (length (filter (\<lambda>p. \<not> isl (loadCollegesData fs p)) paths))"
  show ?case
  proof (cases "isl (loadCollegesData fs p)")
    case True
    then have same: "totalInstances ?st' = totalInstances st"
      by (simp add: new_fst)
    with Cons.prems True have "sint (totalInstances ?st') + ?rest \<le> INT_MAX"
      by simp
    from Cons.IH [OF this] same True show ?thesis by simp
  next
    case False
    with Cons.prems have below: "sint (totalInstances st) < INT_MAX"
      by simp
    with False have step: "sint (totalInstances ?st') = sint (totalInstances st) + 1"
      by (simp add: new_fst_sint)
    with Cons.prems False have "sint (totalInstances ?st') + ?rest \<le> INT_MAX"
      by simp
    from Cons.IH [OF this] step False show ?thesis by simp
  qed
qed

text \<open>
  C2, as the program has it. \<open>totalInstances\<close> starts at 0. A construction whose
  \<open>loadCollegesData\<close> returns executes \<open>totalInstances++\<close>, which adds exactly 1 as long
  as the counter is below the largest \<open>int\<close>, 2147483647; one whose \<open>loadCollegesData\<close>
  throws leaves the statics as they were. Below the largest \<open>int\<close> no construction
  lowers the counter, and after a sequence of constructions from the start of the
  process, of which no more than 2147483647 succeed, the counter is the number of those
  that succeeded. The delegating constructor counts in the same way, on the file
  \<open>default_data.txt\<close>.
\<close>

theorem constructor_counts_successes:
  "sint (totalInstances initial_statics) = 0 \<and>
   (\<forall>collegesData. loadCollegesData fs dataFile = Inr collegesData \<longrightarrow>
      RankIntervalStrategy_new fs dataFile st
        = (st\<lparr>totalInstances := totalInstances st + 1\<rparr>, Inr (RankIntervalStrategy collegesData)) \<and>
      (sint (totalInstances st) < INT_MAX \<longrightarrow>
         sint (totalInstances (fst (RankIntervalStrategy_new fs dataFile st)))
           = sint (totalInstances st) + 1)) \<and>
   (\<forall>e. loadCollegesData fs dataFile = Inl e \<longrightarrow>
      RankIntervalStrategy_new fs dataFile st = (st, Inl e)) \<and>
   (sint (totalInstances st) < INT_MAX \<longrightarrow>
      sint (totalInstances st)
        \<le> sint (totalInstances (fst (RankIntervalStrategy_new fs dataFile st)))) \<and>
   (int (length (filter (\<lambda>p. \<not> isl (loadCollegesData fs p)) paths)) \<le> INT_MAX \<longrightarrow>
      sint (getTotalInstances
              (fold (\<lambda>p s. fst (RankIntervalStrategy_new fs p s)) paths initial_statics))
        = int (length (filter (\<lambda>p. \<not> isl (loadCollegesData fs p)) paths))) \<and>
   (\<forall>collegesData. loadCollegesData fs ''default_data.txt'' = Inr collegesData \<longrightarrow>
      RankIntervalStrategy_default fs st
        = (st\<lparr>totalInstances := totalInstances st + 1\<rparr>, Inr (RankIntervalStrategy collegesData))) \<and>
   (\<forall>e. loadCollegesData fs ''default_data.txt'' = Inl e \<longrightarrow>
      RankIntervalStrategy_default fs st = (st, Inl e))"
proof (intro conjI allI impI)
  show "sint (totalInstances initial_statics) = 0" by (simp add: initial_statics_def)
next
  fix collegesData assume "loadCollegesData fs dataFile = Inr collegesData"
  then show "RankIntervalStrategy_new fs dataFile st
        = (st\<lparr>totalInstances := totalInstances st + 1\<rparr>, Inr (RankIntervalStrategy collegesData))"
    by (simp add: RankIntervalStrategy_new_def)
next
  fix collegesData
  assume "loadCollegesData fs dataFile = Inr collegesData"
    and "sint (totalInstances st) < INT_MAX"
  then show "sint (totalInstances (fst (RankIntervalStrategy_new fs dataFile st)))
           = sint (totalInstances st) + 1"
    by (simp add: new_fst_sint)
next
  fix e assume "loadCollegesData fs dataFile = Inl e"
  then show "RankIntervalStrategy_new fs dataFile st = (st, Inl e)"
    by (simp add: RankIntervalStrategy_new_def)
next
  assume "sint (totalInstances st) < INT_MAX"
  then show "sint (totalInstances st)
        \<le> sint (totalInstances (fst (RankIntervalStrategy_new fs dataFile st)))"
    by (simp add: new_fst_sint)
next
  assume "int (length (filter (\<lambda>p. \<not> isl (loadCollegesData fs p)) paths)) \<le> INT_MAX"
  then have "sint (totalInstances initial_statics)
     + int (length (filter (\<lambda>p. \<not> isl (loadCollegesData fs p)) paths)) \<le> INT_MAX"
    by (simp add: initial_statics_def)
  from constructions_count [OF this]
  show "sint (getTotalInstances
              (fold (\<lambda>p s. fst (RankIntervalStrategy_new fs p s)) paths initial_statics))
        = int (length (filter (\<lambda>p. \<not> isl (loadCollegesData fs p)) paths))"
    by (simp add: getTotalInstances_def initial_statics_def)
next
  fix collegesData assume "loadCollegesData fs ''default_data.txt'' = Inr collegesData"
  then show "RankIntervalStrategy_default fs st
        = (st\<lparr>totalInstances := totalInstances st + 1\<rparr>, Inr (RankIntervalStrategy collegesData))"
    by (simp add: RankIntervalStrategy_default_def RankIntervalStrategy_new_def)
next
  fix e assume "loadCollegesData fs ''default_data.txt'' = Inl e"
  then show "RankIntervalStrategy_default fs st = (st, Inl e)"
    by (simp add: RankIntervalStrategy_default_def RankIntervalStrategy_new_def)
qed

text \<open>
  C2, as the specification words it (every successful construction adds exactly 1 and
  the counter is never lowered), does not hold of a 32-bit counter: when
  \<open>totalInstances\<close> is 2147483647, a successful construction leaves it at -2147483648.
\<close>

theorem counter_overflow_lowers_count:
  "loadCollegesData example_files ''ranks.txt'' = Inr overlap_table \<and>
   sint (totalInstances \<lparr>totalInstances = 2147483647\<rparr>) = 2147483647 \<and>
   sint (totalInstances (fst (RankIntervalStrategy_new example_files ''ranks.txt''
           \<lparr>totalInstances = 2147483647\<rparr>))) = - 2147483648"
proof -
  have good: "loadCollegesData example_files ''ranks.txt'' = Inr overlap_table"
    by code_simp
  then show ?thesis
    by (simp add: RankIntervalStrategy_new_def)
qed

theorem constructor_counts_successes_witness:
  "RankIntervalStrategy_new example_files ''ranks.txt'' initial_statics
     = (\<lparr>totalInstances = 1\<rparr>, Inr (RankIntervalStrategy overlap_table)) \<and>
   sint (totalInstances (fst (RankIntervalStrategy_new example_files ''ranks.txt'' initial_statics))) = 1 \<and>
   RankIntervalStrategy_new example_files ''broken.txt'' \<lparr>totalInstances = 1\<rparr>
     = (\<lparr>totalInstances = 1\<rparr>,
        Inl (runtime_error ''Error: Invalid data format in the data file.'')) \<and>
   RankIntervalStrategy_new example_files ''missing.txt'' \<lparr>totalInstances = 1\<rparr>
     = (\<lparr>totalInstances = 1\<rparr>, Inl (runtime_error ''Error: Cannot open data file.'')) \<and>
   sint (getTotalInstances
      (fold (\<lambda>p s. fst (RankIntervalStrategy_new example_files p s))
         [''ranks.txt'', ''broken.txt'', ''ranks.txt'', ''missing.txt''] initial_statics)) = 2 \<and>
   RankIntervalStrategy_default default_files initial_statics
     = (\<lparr>totalInstances = 1\<rparr>,
        Inr (RankIntervalStrategy [\<lparr>rankStart = 1, rankEnd = 10, college = ''Default College''\<rparr>])) \<and>
   RankIntervalStrategy_default example_files initial_statics
     = (\<lparr>totalInstances = 0\<rparr>, Inl (runtime_error ''Error: Cannot open data file.''))"
proof -
  have good: "loadCollegesData example_files ''ranks.txt'' = Inr overlap_table"
    by code_simp
  have bad: "loadCollegesData example_files ''broken.txt''
      = Inl (runtime_error ''Error: Invalid data format in the data file.'')"
    by code_simp
  have missing: "loadCollegesData example_files ''missing.txt''
      = Inl (runtime_error ''Error: Cannot open data file.'')"
    by code_simp
  have dflt: "loadCollegesData default_files ''default_data.txt''
      = Inr [\<lparr>rankStart = 1, rankEnd = 10, college = ''Default College''\<rparr>]"
    by code_simp
  have no_dflt: "loadCollegesData example_files ''default_data.txt''
      = Inl (runtime_error ''Error: Cannot open data file.'')"
    by code_simp
  let ?paths = "[''ranks.txt'', ''broken.txt'', ''ranks.txt'', ''missing.txt'']"
  have two: "int (length (filter (\<lambda>p. \<not> isl (loadCollegesData example_files p)) ?paths)) = 2"
    by (simp add: good bad missing)
  have start: "sint (totalInstances initial_statics) < INT_MAX"
    by (simp add: initial_statics_def INT_MAX_def)
  note t1 = constructor_counts_successes [of example_files "''ranks.txt''" initial_statics ?paths]
  from t1 good have a: "RankIntervalStrategy_new example_files ''ranks.txt'' initial_statics
     = (\<lparr>totalInstances = 1\<rparr>, Inr (RankIntervalStrategy overlap_table))"
    by (simp add: initial_statics_def)
  from t1 good start
  have a': "sint (totalInstances (fst (RankIntervalStrategy_new example_files ''ranks.txt'' initial_statics)))
      = sint (totalInstances initial_statics) + 1"
    by blast
  from t1 two have e: "sint (getTotalInstances
      (fold (\<lambda>p s. fst (RankIntervalStrategy_new example_files p s)) ?paths initial_statics)) = 2"
    by (simp add: INT_MAX_def)
  from constructor_counts_successes [of example_files "''broken.txt''" "\<lparr>totalInstances = 1\<rparr>" "[]"] bad
  have b: "RankIntervalStrategy_new example_files ''broken.txt'' \<lparr>totalInstances = 1\<rparr>
     = (\<lparr>totalInstances = 1\<rparr>,
        Inl (runtime_error ''Error: Invalid data format in the data file.''))"
    by simp
  from constructor_counts_successes [of example_files "''missing.txt''" "\<lparr>totalInstances = 1\<rparr>" "[]"] missing
  have c: "RankIntervalStrategy_new example_files ''missing.txt'' \<lparr>totalInstances = 1\<rparr>
     = (\<lparr>totalInstances = 1\<rparr>, Inl (runtime_error ''Error: Cannot open data file.''))"
    by simp
  from constructor_counts_successes [of default_files "''default_data.txt''" initial_statics "[]"] dflt
  have d: "RankIntervalStrategy_default default_files initial_statics
     = (\<lparr>totalInstances = 1\<rparr>,
        Inr (RankIntervalStrategy [\<lparr>rankStart = 1, rankEnd = 10, college = ''Default College''\<rparr>]))"
    by (simp add: initial_statics_def)
  from constructor_counts_successes [of example_files "''ranks.txt''" initial_statics "[]"] no_dflt
  have f: "RankIntervalStrategy_default example_files initial_statics
     = (\<lparr>totalInstances = 0\<rparr>, Inl (runtime_error ''Error: Cannot open data file.''))"
    by (simp add: initial_statics_def)
  from a a' b c d e f show ?thesis by (simp add: initial_statics_def)
qed

subsection \<open>Reading one line\<close>

lemma find_from_eq:
  "find_from s ch i = (if ch \<in> set s then Some (i + length (takeWhile (\<lambda>c. c \<noteq> ch) s)) else None)"
  by (induction s arbitrary: i) auto

lemma string_find_eq:
  "string_find s ch = (if ch \<in> set s then Some (length (takeWhile (\<lambda>c. c \<noteq> ch) s)) else None)"
  by (simp add: string_find_def find_from_eq)

lemma substr_prefix:
  "substr s 0 (length (takeWhile P s)) = Inr (takeWhile P s)"
  by (simp add: substr_def takeWhile_eq_take [symmetric])

lemma substr_from_suffix:
  "\<not> list_all P s \<Longrightarrow> substr_from s (Suc (length (takeWhile P s))) = Inr (drop 1 (dropWhile P s))"
proof -
  assume "\<not> list_all P s"
  then have "dropWhile P s \<noteq> []" by (simp add: list_all_iff dropWhile_eq_Nil_conv)
  moreover have "length (takeWhile P s) + length (dropWhile P s) = length s"
    by (metis length_append takeWhile_dropWhile_id)
  ultimately have "length (takeWhile P s) < length s"
    by (cases "dropWhile P s") auto
  moreover have "drop (Suc (length (takeWhile P s))) s = drop 1 (dropWhile P s)"
    by (simp add: dropWhile_eq_drop)
  ultimately show ?thesis by (simp add: substr_from_def)
qed

lemma and_then_Inr: "and_then (Inr x) f = f x"
  by (simp add: and_then_def)

lemma and_then_Inl: "and_then (Inl e) f = Inl e"
  by (simp add: and_then_def)

lemma mem_not_all: "ch \<in> set s \<Longrightarrow> \<not> list_all (\<lambda>c. c \<noteq> ch) s"
  by (auto simp: list_all_iff)

lemma parse_line_no_colon:
  "CHR '':'' \<notin> set line \<Longrightarrow>
   parse_line line = Inl (runtime_error ''Error: Invalid data format in the data file.'')"
  by (simp add: parse_line_def string_find_eq)

lemma parse_line_no_hyphen:
  "CHR '':'' \<in> set line \<Longrightarrow> CHR ''-'' \<notin> set (takeWhile (\<lambda>c. c \<noteq> CHR '':'') line) \<Longrightarrow>
   parse_line line = Inl (runtime_error ''Error: Invalid rank range in the data file.'')"
  by (simp add: parse_line_def string_find_eq substr_prefix substr_from_suffix mem_not_all and_then_Inr)

lemma parse_line_split:
  assumes "CHR '':'' \<in> set line"
    and "CHR ''-'' \<in> set (takeWhile (\<lambda>c. c \<noteq> CHR '':'') line)"
  shows "parse_line line =
    and_then (stoi (takeWhile (\<lambda>c. c \<noteq> CHR ''-'') (takeWhile (\<lambda>c. c \<noteq> CHR '':'') line))) (\<lambda>x.
    and_then (stoi (drop 1 (dropWhile (\<lambda>c. c \<noteq> CHR ''-'') (takeWhile (\<lambda>c. c \<noteq> CHR '':'') line)))) (\<lambda>y.
      Inr \<lparr>rankStart = x, rankEnd = y, college = drop 1 (dropWhile (\<lambda>c. c \<noteq> CHR '':'') line)\<rparr>))"
  using assms
  by (simp add: parse_line_def string_find_eq substr_prefix substr_from_suffix mem_not_all and_then_Inr)

lemma stoi_error: "stoi s = Inl e \<Longrightarrow> e = invalid_argument \<or> e = out_of_range"
  by (simp add: stoi_def split: option.splits if_splits)

lemma parse_line_error_kind:
  assumes e: "parse_line line = Inl e"
  shows "DataFormatError e"
proof (cases "CHR '':'' \<in> set line")
  case False
  with e show ?thesis by (simp add: parse_line_no_colon DataFormatError_def)
next
  case colon: True
  show ?thesis
  proof (cases "CHR ''-'' \<in> set (takeWhile (\<lambda>c. c \<noteq> CHR '':'') line)")
    case False
    with colon e show ?thesis by (simp add: parse_line_no_hyphen DataFormatError_def)
  next
    case True
    let ?a = "takeWhile (\<lambda>c. c \<noteq> CHR ''-'') (takeWhile (\<lambda>c. c \<noteq> CHR '':'') line)"
    let ?b = "drop 1 (dropWhile (\<lambda>c. c \<noteq> CHR ''-'') (takeWhile (\<lambda>c. c \<noteq> CHR '':'') line))"
    note split = parse_line_split [OF colon True]
    show ?thesis
    proof (cases "stoi ?a")
      case (Inl e1)
      with split e have "e = e1" by (simp add: and_then_Inl)
      with stoi_error [OF Inl] show ?thesis by (auto simp: DataFormatError_def)
    next
      case a: (Inr x)
      show ?thesis
      proof (cases "stoi ?b")
        case (Inl e2)
        with split e a have "e = e2" by (simp add: and_then_Inl and_then_Inr)
        with stoi_error [OF Inl] show ?thesis by (auto simp: DataFormatError_def)
      next
        case (Inr y)
        with split e a show ?thesis by (simp add: and_then_Inr)
      qed
    qed
  qed
qed

lemma loop_error_kind:
  "loadCollegesData_loop content acc = Inl e \<Longrightarrow> DataFormatError e"
proof (induction content acc rule: loadCollegesData_loop.induct)
  case (1 content acc)
  show ?case
  proof (cases "getline content")
    case None
    with "1.prems" show ?thesis by (simp add: loadCollegesData_loop.simps [of content acc])
  next
    case (Some p)
    obtain line rest where p: "p = (line, rest)" by (cases p)
    show ?thesis
    proof (cases "parse_line line")
      case (Inl e')
      with Some p "1.prems" have "e = e'"
        by (simp add: loadCollegesData_loop.simps [of content acc])
      with Inl show ?thesis by (simp add: parse_line_error_kind)
    next
      case (Inr d)
      with Some p "1.prems" have "loadCollegesData_loop rest (acc @ [d]) = Inl e"
        by (simp add: loadCollegesData_loop.simps [of content acc])
      with "1.IH" [OF Some p [symmetric] Inr] show ?thesis .
    qed
  qed
qed

lemma load_fails_on_bad_line:
  assumes "fs dataFile = Some content" and "line \<in> set (file_lines content)"
    and "parse_line line = Inl e"
  shows "\<exists>e'. loadCollegesData fs dataFile = Inl e' \<and> DataFormatError e'"
proof (cases "loadCollegesData fs dataFile")
  case (Inl e')
  with assms(1) have "DataFormatError e'"
    by (simp add: loadCollegesData_def loop_error_kind)
  with Inl show ?thesis by simp
next
  case (Inr t)
  with assms(1) have "map parse_line (file_lines content) = map Inr t"
    by (simp add: load_table)
  then have "\<forall>l \<in> set (file_lines content). \<exists>d. parse_line l = Inr d"
    by (metis (no_types, lifting) imageE image_eqI list.set_map)
  with assms(2,3) show ?thesis by auto
qed

text \<open>
  C3. A line without \<open>:\<close> makes the loop throw "Error: Invalid data format in the data
  file.", and a line with a \<open>:\<close> whose text before the first \<open>:\<close> has no \<open>-\<close> makes
  it throw "Error: Invalid rank range in the data file.". A file that holds such a line
  anywhere is never read to the end: \<open>loadCollegesData\<close> throws one of the data format
  exceptions, and so does the constructor, which leaves the statics alone. The lines
  "abc:College" and "1-5" are such lines.
\<close>

theorem missing_separator_raises:
  assumes "fs dataFile = Some content" and "line \<in> set (file_lines content)"
    and "CHR '':'' \<notin> set line \<or> CHR ''-'' \<notin> set (takeWhile (\<lambda>c. c \<noteq> CHR '':'') line)"
  shows "parse_line line = Inl (runtime_error
            (if CHR '':'' \<notin> set line then ''Error: Invalid data format in the data file.''
             else ''Error: Invalid rank range in the data file.'')) \<and>
         (\<exists>e. loadCollegesData fs dataFile = Inl e \<and> DataFormatError e \<and>
              RankIntervalStrategy_new fs dataFile st = (st, Inl e))"
proof -
  have line: "parse_line line = Inl (runtime_error
            (if CHR '':'' \<notin> set line then ''Error: Invalid data format in the data file.''
             else ''Error: Invalid rank range in the data file.''))"
    using assms(3) by (auto simp: parse_line_no_colon parse_line_no_hyphen)
  from load_fails_on_bad_line [of fs dataFile content line, OF assms(1,2) line]
  obtain e where "loadCollegesData fs dataFile = Inl e" and "DataFormatError e" by blast
  then have "loadCollegesData fs dataFile = Inl e \<and> DataFormatError e \<and>
              RankIntervalStrategy_new fs dataFile st = (st, Inl e)"
    by (simp add: RankIntervalStrategy_new_def)
  with line show ?thesis by blast
qed

theorem missing_separator_raises_witness:
  "parse_line ''abc:College'' = Inl (runtime_error ''Error: Invalid rank range in the data file.'') \<and>
   parse_line ''1-5'' = Inl (runtime_error ''Error: Invalid data format in the data file.'') \<and>
   isl (loadCollegesData malformed_files ''no_hyphen.txt'') \<and>
   isl (loadCollegesData malformed_files ''no_colon.txt'')"
proof -
  have f1: "malformed_files ''no_hyphen.txt''
      = Some (''1-5:First'' @ [CHR 0x0A] @ ''abc:College'' @ [CHR 0x0A])"
    by (simp add: malformed_files_def)
  have l1: "''abc:College'' \<in> set (file_lines (''1-5:First'' @ [CHR 0x0A] @ ''abc:College'' @ [CHR 0x0A]))"
    by code_simp
  have b1: "CHR '':'' \<notin> set ''abc:College''
      \<or> CHR ''-'' \<notin> set (takeWhile (\<lambda>c. c \<noteq> CHR '':'') ''abc:College'')"
    by simp
  have f2: "malformed_files ''no_colon.txt'' = Some ''1-5''"
    by (simp add: malformed_files_def)
  have l2: "''1-5'' \<in> set (file_lines ''1-5'')"
    by code_simp
  have b2: "CHR '':'' \<notin> set ''1-5''
      \<or> CHR ''-'' \<notin> set (takeWhile (\<lambda>c. c \<noteq> CHR '':'') ''1-5'')"
    by simp
  note t1 = missing_separator_raises [of malformed_files "''no_hyphen.txt''" _ "''abc:College''" initial_statics, OF f1 l1 b1]
  note t2 = missing_separator_raises [of malformed_files "''no_colon.txt''" _ "''1-5''" initial_statics, OF f2 l2 b2]
  from t1 have "parse_line ''abc:College'' = Inl (runtime_error ''Error: Invalid rank range in the data file.'')"
    and "isl (loadCollegesData malformed_files ''no_hyphen.txt'')"
    by auto
  moreover from t2 have "parse_line ''1-5'' = Inl (runtime_error ''Error: Invalid data format in the data file.'')"
    and "isl (loadCollegesData malformed_files ''no_colon.txt'')"
    by auto
  ultimately show ?thesis by simp
qed

subsection \<open>How many separators a line may have\<close>

lemma count_ge_1: "Suc 0 \<le> count_list xs x \<longleftrightarrow> x \<in> set xs"
proof -
  have "count_list xs x = 0 \<longleftrightarrow> x \<notin> set xs" by (rule count_list_0_iff)
  then show ?thesis by (cases "count_list xs x") auto
qed

text \<open>
  C4, as the program has it. \<open>find\<close> returns the first occurrence and nothing looks
  for a second one, so the loop accepts a line exactly when it has at least one \<open>:\<close>,
  the text before the first \<open>:\<close> has at least one \<open>-\<close>, and \<open>std::stoi\<close> accepts both
  the text before the first \<open>-\<close> and the text between the first \<open>-\<close> and the first
  \<open>:\<close>. The record then has these two values, and its college is everything after the
  first \<open>:\<close>, later colons included.
\<close>

theorem accepted_line_shape:
  "parse_line line = Inr d \<longleftrightarrow>
     (1 \<le> count_list line CHR '':'' \<and>
      1 \<le> count_list (takeWhile (\<lambda>c. c \<noteq> CHR '':'') line) CHR ''-'' \<and>
      stoi (takeWhile (\<lambda>c. c \<noteq> CHR ''-'') (takeWhile (\<lambda>c. c \<noteq> CHR '':'') line))
        = Inr (rankStart d) \<and>
      stoi (drop 1 (dropWhile (\<lambda>c. c \<noteq> CHR ''-'') (takeWhile (\<lambda>c. c \<noteq> CHR '':'') line)))
        = Inr (rankEnd d) \<and>
      college d = drop 1 (dropWhile (\<lambda>c. c \<noteq> CHR '':'') line))"
proof (cases "CHR '':'' \<in> set line")
  case False
  then show ?thesis by (simp add: parse_line_no_colon count_ge_1)
next
  case colon: True
  show ?thesis
  proof (cases "CHR ''-'' \<in> set (takeWhile (\<lambda>c. c \<noteq> CHR '':'') line)")
    case False
    with colon show ?thesis by (simp add: parse_line_no_hyphen count_ge_1)
  next
    case True
    let ?a = "takeWhile (\<lambda>c. c \<noteq> CHR ''-'') (takeWhile (\<lambda>c. c \<noteq> CHR '':'') line)"
    let ?b = "drop 1 (dropWhile (\<lambda>c. c \<noteq> CHR ''-'') (takeWhile (\<lambda>c. c \<noteq> CHR '':'') line))"
    note split = parse_line_split [OF colon True]
    show ?thesis
    proof (cases "stoi ?a")
      case (Inl e1)
      with split show ?thesis by (simp add: and_then_Inl)
    next
      case a: (Inr x)
      show ?thesis
      proof (cases "stoi ?b")
        case (Inl e2)
        with split a show ?thesis by (simp add: and_then_Inl and_then_Inr)
      next
        case (Inr y)
        with split a colon True show ?thesis
          by (cases d) (auto simp: and_then_Inr count_ge_1)
      qed
    qed
  qed
qed

text \<open>
  C4, as the specification words it (exactly one \<open>:\<close> and exactly one \<open>-\<close>, anything
  else rejected), does not hold: a line with two colons and a line whose range has two
  hyphens are both accepted.
\<close>

theorem extra_separators_accepted:
  "count_list ''1-5:A:B'' CHR '':'' = 2 \<and>
   parse_line ''1-5:A:B'' = Inr \<lparr>rankStart = 1, rankEnd = 5, college = ''A:B''\<rparr> \<and>
   count_list ''1-5-9'' CHR ''-'' = 2 \<and>
   parse_line ''1-5-9:A'' = Inr \<lparr>rankStart = 1, rankEnd = 5, college = ''A''\<rparr>"
  by code_simp

theorem accepted_line_shape_witness:
  "parse_line ''100-200:Tech U'' = Inr \<lparr>rankStart = 100, rankEnd = 200, college = ''Tech U''\<rparr>"
proof -
  have "1 \<le> count_list ''100-200:Tech U'' CHR '':''" by simp
  moreover have "1 \<le> count_list (takeWhile (\<lambda>c. c \<noteq> CHR '':'') ''100-200:Tech U'') CHR ''-''"
    by simp
  moreover have "stoi (takeWhile (\<lambda>c. c \<noteq> CHR ''-'') (takeWhile (\<lambda>c. c \<noteq> CHR '':'') ''100-200:Tech U''))
      = Inr 100"
    by code_simp
  moreover have "stoi (drop 1 (dropWhile (\<lambda>c. c \<noteq> CHR ''-'') (takeWhile (\<lambda>c. c \<noteq> CHR '':'') ''100-200:Tech U'')))
      = Inr 200"
    by code_simp
  moreover have "''Tech U'' = drop 1 (dropWhile (\<lambda>c. c \<noteq> CHR '':'') ''100-200:Tech U'')"
    by simp
  ultimately show ?thesis
    using accepted_line_shape [of "''100-200:Tech U''"
        "\<lparr>rankStart = 100, rankEnd = 200, college = ''Tech U''\<rparr>"]
    by simp
qed

subsection \<open>What the rank halves may look like\<close>

lemma takeWhile_upto: "ch \<notin> set xs \<Longrightarrow> takeWhile (\<lambda>c. c \<noteq> ch) (xs @ ch # ys) = xs"
  by (induction xs) auto

lemma dropWhile_upto: "ch \<notin> set xs \<Longrightarrow> dropWhile (\<lambda>c. c \<noteq> ch) (xs @ ch # ys) = ch # ys"
  by (induction xs) auto

lemma parse_line_parts:
  assumes "CHR ''-'' \<notin> set a" and "CHR '':'' \<notin> set a" and "CHR '':'' \<notin> set b"
  shows "parse_line (a @ ''-'' @ b @ '':'' @ c) =
    and_then (stoi a) (\<lambda>x. and_then (stoi b) (\<lambda>y.
      Inr \<lparr>rankStart = x, rankEnd = y, college = c\<rparr>))"
proof -
  let ?line = "a @ ''-'' @ b @ '':'' @ c"
  have ab: "CHR '':'' \<notin> set (a @ CHR ''-'' # b)" using assms by simp
  have line: "?line = (a @ CHR ''-'' # b) @ CHR '':'' # c" by simp
  have range: "takeWhile (\<lambda>c. c \<noteq> CHR '':'') ?line = a @ CHR ''-'' # b"
    unfolding line by (rule takeWhile_upto [OF ab])
  have label: "dropWhile (\<lambda>c. c \<noteq> CHR '':'') ?line = CHR '':'' # c"
    unfolding line by (rule dropWhile_upto [OF ab])
  have colon: "CHR '':'' \<in> set ?line" by simp
  have hyphen: "CHR ''-'' \<in> set (takeWhile (\<lambda>c. c \<noteq> CHR '':'') ?line)"
    unfolding range by simp
  have start: "takeWhile (\<lambda>c. c \<noteq> CHR ''-'') (a @ CHR ''-'' # b) = a"
    by (rule takeWhile_upto [OF assms(1)])
  have end_: "dropWhile (\<lambda>c. c \<noteq> CHR ''-'') (a @ CHR ''-'' # b) = CHR ''-'' # b"
    by (rule dropWhile_upto [OF assms(1)])
  show ?thesis
    unfolding parse_line_split [OF colon hyphen] range label start end_ by simp
qed

lemma isdigit_not_isspace: "isdigit c \<Longrightarrow> \<not> isspace c"
  by (auto simp: isdigit_def isspace_def)

lemma isdigit_not_sign: "isdigit c \<Longrightarrow> c \<noteq> CHR ''-'' \<and> c \<noteq> CHR ''+''"
  by (auto simp: isdigit_def)

lemma sign_not_isspace: "\<not> isspace CHR ''-''" "\<not> isspace CHR ''+''"
  by (simp_all add: isspace_def)

lemma dropWhile_all: "list_all P xs \<Longrightarrow> dropWhile P (xs @ ys) = dropWhile P ys"
  by (induction xs) auto

lemma takeWhile_all: "list_all P xs \<Longrightarrow> takeWhile P (xs @ ys) = xs @ takeWhile P ys"
  by (induction xs) auto

lemma scan_decimal_prefix:
  assumes ws: "list_all isspace ws"
    and sg: "sg = [] \<or> sg = ''+'' \<or> sg = ''-''"
    and ds: "ds \<noteq> []" "list_all isdigit ds"
  shows "scan_decimal (ws @ sg @ ds @ rest) =
    Some (if sg = ''-'' then - digits_value 0 (ds @ takeWhile isdigit rest)
          else digits_value 0 (ds @ takeWhile isdigit rest))"
proof -
  obtain d ds' where dds: "ds = d # ds'" using ds(1) by (cases ds) auto
  have d: "isdigit d" using ds(2) dds by simp
  have skip: "dropWhile isspace (ws @ sg @ ds @ rest) = sg @ ds @ rest"
    using sg d dds by (auto simp: dropWhile_all [OF ws] isdigit_not_isspace sign_not_isspace)
  have digits: "takeWhile isdigit (ds @ rest) = ds @ takeWhile isdigit rest"
    by (rule takeWhile_all [OF ds(2)])
  from sg show ?thesis
  proof (elim disjE)
    assume "sg = []"
    then show ?thesis
      using skip digits dds isdigit_not_sign [OF d]
      by (simp add: scan_decimal_def Let_def)
  next
    assume "sg = ''+''"
    then show ?thesis
      using skip digits dds by (simp add: scan_decimal_def Let_def)
  next
    assume "sg = ''-''"
    then show ?thesis
      using skip digits dds by (simp add: scan_decimal_def Let_def)
  qed
qed

lemma scan_decimal_Some_prefix:
  assumes "scan_decimal s = Some v"
  shows "\<exists>ws sg ds rest. s = ws @ sg @ ds @ rest \<and> list_all isspace ws \<and>
           (sg = [] \<or> sg = ''+'' \<or> sg = ''-'') \<and> ds \<noteq> [] \<and> list_all isdigit ds"
proof -
  define s1 where "s1 = dropWhile isspace s"
  define sg where "sg = (case s1 of [] \<Rightarrow> [] | c # cs \<Rightarrow> if c = CHR ''-'' \<or> c = CHR ''+'' then [c] else [])"
  define s2 where "s2 = (case s1 of [] \<Rightarrow> [] | c # cs \<Rightarrow> if c = CHR ''-'' \<or> c = CHR ''+'' then cs else s1)"
  have s: "s = takeWhile isspace s @ s1" by (simp add: s1_def)
  have s1: "s1 = sg @ s2" by (auto simp: sg_def s2_def split: list.splits)
  have s2: "s2 = takeWhile isdigit s2 @ dropWhile isdigit s2" by simp
  have ne: "takeWhile isdigit s2 \<noteq> []"
    unfolding s2_def s1_def
    using assms by (auto simp: scan_decimal_def Let_def split: if_splits)
  have sgs: "sg = [] \<or> sg = ''+'' \<or> sg = ''-''"
    by (auto simp: sg_def split: list.splits)
  have "s = takeWhile isspace s @ sg @ takeWhile isdigit s2 @ dropWhile isdigit s2"
    using s s1 s2 by simp
  moreover have "list_all isspace (takeWhile isspace s)"
    by (auto simp: list_all_iff dest: set_takeWhileD)
  moreover have "list_all isdigit (takeWhile isdigit s2)"
    by (auto simp: list_all_iff dest: set_takeWhileD)
  ultimately show ?thesis using sgs ne by blast
qed

lemma stoi_invalid_iff:
  "stoi s = Inl invalid_argument \<longleftrightarrow>
   \<not> (\<exists>ws sg ds rest. s = ws @ sg @ ds @ rest \<and> list_all isspace ws \<and>
           (sg = [] \<or> sg = ''+'' \<or> sg = ''-'') \<and> ds \<noteq> [] \<and> list_all isdigit ds)"
proof
  assume inv: "stoi s = Inl invalid_argument"
  show "\<not> (\<exists>ws sg ds rest. s = ws @ sg @ ds @ rest \<and> list_all isspace ws \<and>
           (sg = [] \<or> sg = ''+'' \<or> sg = ''-'') \<and> ds \<noteq> [] \<and> list_all isdigit ds)"
  proof
    assume "\<exists>ws sg ds rest. s = ws @ sg @ ds @ rest \<and> list_all isspace ws \<and>
           (sg = [] \<or> sg = ''+'' \<or> sg = ''-'') \<and> ds \<noteq> [] \<and> list_all isdigit ds"
    then obtain ws sg ds rest where "s = ws @ sg @ ds @ rest" "list_all isspace ws"
      "sg = [] \<or> sg = ''+'' \<or> sg = ''-''" "ds \<noteq> []" "list_all isdigit ds"
      by blast
    then have "scan_decimal s \<noteq> None"
      using scan_decimal_prefix [of ws sg ds rest] by simp
    with inv show False by (auto simp: stoi_def split: option.splits if_splits)
  qed
next
  assume none: "\<not> (\<exists>ws sg ds rest. s = ws @ sg @ ds @ rest \<and> list_all isspace ws \<and>
           (sg = [] \<or> sg = ''+'' \<or> sg = ''-'') \<and> ds \<noteq> [] \<and> list_all isdigit ds)"
  have "scan_decimal s = None"
  proof (cases "scan_decimal s")
    case None
    then show ?thesis .
  next
    case (Some v)
    from scan_decimal_Some_prefix [OF Some] none show ?thesis by blast
  qed
  then show "stoi s = Inl invalid_argument" by (simp add: stoi_def)
qed

lemma takeWhile_stops: "rest = [] \<or> \<not> P (hd rest) \<Longrightarrow> takeWhile P rest = []"
  by (cases rest) auto

lemma stoi_prefix_value:
  assumes "list_all isspace ws" and "sg = [] \<or> sg = ''+'' \<or> sg = ''-''"
    and "ds \<noteq> []" and "list_all isdigit ds" and "rest = [] \<or> \<not> isdigit (hd rest)"
  shows "stoi (ws @ sg @ ds @ rest) =
    (let v = (if sg = ''-'' then - digits_value 0 ds else digits_value 0 ds)
     in if v < INT_MIN \<or> INT_MAX < v then Inl out_of_range else Inr v)"
  using scan_decimal_prefix [OF assms(1-4), of rest] takeWhile_stops [of rest isdigit, OF assms(5)]
  by (simp add: stoi_def Let_def)

text \<open>
  C5, as the program has it. The two rank halves are the exact texts before and after
  the first \<open>-\<close> of the range; the program strips nothing and hands them to
  \<open>std::stoi\<close>, the start half first, and an exception of \<open>std::stoi\<close> ends the loop.
  \<open>std::stoi\<close> throws \<open>std::invalid_argument\<close> exactly when the text does not begin
  with optional white space, an optional sign and at least one decimal digit. When it
  does, \<open>std::stoi\<close> returns the value of the digits with the sign, whatever follows the
  digits, or throws \<open>std::out_of_range\<close> when that value is not an \<open>int\<close>.
\<close>

theorem rank_halves_parsed_by_stoi:
  "(CHR ''-'' \<notin> set a \<and> CHR '':'' \<notin> set a \<and> CHR '':'' \<notin> set b \<longrightarrow>
      parse_line (a @ ''-'' @ b @ '':'' @ c) =
        and_then (stoi a) (\<lambda>x. and_then (stoi b) (\<lambda>y.
          Inr \<lparr>rankStart = x, rankEnd = y, college = c\<rparr>))) \<and>
   (stoi s = Inl invalid_argument \<longleftrightarrow>
      \<not> (\<exists>ws sg ds rest. s = ws @ sg @ ds @ rest \<and> list_all isspace ws \<and>
             (sg = [] \<or> sg = ''+'' \<or> sg = ''-'') \<and> ds \<noteq> [] \<and> list_all isdigit ds)) \<and>
   (list_all isspace ws \<and> (sg = [] \<or> sg = ''+'' \<or> sg = ''-'') \<and> ds \<noteq> [] \<and>
    list_all isdigit ds \<and> (rest = [] \<or> \<not> isdigit (hd rest)) \<longrightarrow>
      stoi (ws @ sg @ ds @ rest) =
        (let v = (if sg = ''-'' then - digits_value 0 ds else digits_value 0 ds)
         in if v < INT_MIN \<or> INT_MAX < v then Inl out_of_range else Inr v))"
proof (intro conjI impI)
  assume "CHR ''-'' \<notin> set a \<and> CHR '':'' \<notin> set a \<and> CHR '':'' \<notin> set b"
  then show "parse_line (a @ ''-'' @ b @ '':'' @ c) =
        and_then (stoi a) (\<lambda>x. and_then (stoi b) (\<lambda>y.
          Inr \<lparr>rankStart = x, rankEnd = y, college = c\<rparr>))"
    by (intro parse_line_parts) simp_all
next
  show "stoi s = Inl invalid_argument \<longleftrightarrow>
      \<not> (\<exists>ws sg ds rest. s = ws @ sg @ ds @ rest \<and> list_all isspace ws \<and>
             (sg = [] \<or> sg = ''+'' \<or> sg = ''-'') \<and> ds \<noteq> [] \<and> list_all isdigit ds)"
    by (rule stoi_invalid_iff)
next
  assume "list_all isspace ws \<and> (sg = [] \<or> sg = ''+'' \<or> sg = ''-'') \<and> ds \<noteq> [] \<and>
    list_all isdigit ds \<and> (rest = [] \<or> \<not> isdigit (hd rest))"
  then show "stoi (ws @ sg @ ds @ rest) =
        (let v = (if sg = ''-'' then - digits_value 0 ds else digits_value 0 ds)
         in if v < INT_MIN \<or> INT_MAX < v then Inl out_of_range else Inr v)"
    by (intro stoi_prefix_value) simp_all
qed

text \<open>
  C5, as the specification words it (a rank half with white space around it or with
  other characters after its digits is rejected), does not hold: the line
  "1 - 5abc:X" is accepted, with the ranks 1 and 5.
\<close>

theorem padded_rank_halves_accepted:
  "parse_line ''1 - 5abc:X'' = Inr \<lparr>rankStart = 1, rankEnd = 5, college = ''X''\<rparr> \<and>
   stoi ''1 '' = Inr 1 \<and> stoi '' 5abc'' = Inr 5"
  by code_simp

theorem rank_halves_parsed_by_stoi_witness:
  "parse_line ''100- 200 :Tech U'' = Inr \<lparr>rankStart = 100, rankEnd = 200, college = ''Tech U''\<rparr> \<and>
   stoi ''100'' = Inr 100 \<and> stoi '' 200 '' = Inr 200 \<and>
   stoi ''abc'' = Inl invalid_argument \<and> stoi ''99999999999'' = Inl out_of_range"
proof -
  note t = rank_halves_parsed_by_stoi [of "''100''" "'' 200 ''" "''Tech U''" "''abc''"
      "'' ''" "[]" "''200''" "'' ''"]
  have a: "stoi ''100'' = Inr 100" by code_simp
  have "stoi ('' '' @ [] @ ''200'' @ '' '') = Inr 200"
  proof -
    have "list_all isspace '' '' \<and> (([]::string) = [] \<or> [] = ''+'' \<or> [] = ''-'') \<and> ''200'' \<noteq> [] \<and>
      list_all isdigit ''200'' \<and> ('' '' = [] \<or> \<not> isdigit (hd '' ''))"
      by (simp add: isspace_def isdigit_def)
    with t have "stoi ('' '' @ [] @ ''200'' @ '' '') =
        (let v = (if [] = ''-'' then - digits_value 0 ''200'' else digits_value 0 ''200'')
         in if v < INT_MIN \<or> INT_MAX < v then Inl out_of_range else Inr v)"
      by blast
    then show ?thesis by (simp add: INT_MIN_def INT_MAX_def)
  qed
  then have b: "stoi '' 200 '' = Inr 200" by simp
  from t have "parse_line (''100'' @ ''-'' @ '' 200 '' @ '':'' @ ''Tech U'') =
        and_then (stoi ''100'') (\<lambda>x. and_then (stoi '' 200 '') (\<lambda>y.
          Inr \<lparr>rankStart = x, rankEnd = y, college = ''Tech U''\<rparr>))"
    by simp
  with a b have line: "parse_line ''100- 200 :Tech U''
      = Inr \<lparr>rankStart = 100, rankEnd = 200, college = ''Tech U''\<rparr>"
    by (simp add: and_then_Inr)
  have c: "stoi ''abc'' = Inl invalid_argument" by code_simp
  have d: "stoi ''99999999999'' = Inl out_of_range" by code_simp
  from line a b c d show ?thesis by simp
qed

subsection \<open>The driver\<close>

lemma string_of_int_1: "string_of_int 1 = ''1''"
  by code_simp

lemma main_try_no_data:
  "files w ''data.txt'' = None \<Longrightarrow>
   main_try w = (initial_statics, [], Inl (runtime_error ''Error: Cannot open data.txt''))"
  by (simp add: main_try_def)

lemma main_try_no_project:
  "files w ''data.txt'' = Some pathFile \<Longrightarrow> files w (read_path pathFile) = None \<Longrightarrow>
   main_try w = (initial_statics, [], Inl (runtime_error ''Error: Cannot open project.txt''))"
  by (simp add: main_try_def)

lemma main_try_bad_rank:
  "files w ''data.txt'' = Some pathFile \<Longrightarrow> files w (read_path pathFile) = Some projectFile \<Longrightarrow>
   read_int (snd (read_name (stdin w))) = None \<Longrightarrow>
   main_try w = (initial_statics, prompts, Inl (runtime_error invalid_rank))"
  by (simp add: main_try_def case_prod_beta)

lemma main_try_bad_data:
  "files w ''data.txt'' = Some pathFile \<Longrightarrow> files w (read_path pathFile) = Some projectFile \<Longrightarrow>
   read_int (snd (read_name (stdin w))) = Some userRank \<Longrightarrow>
   loadCollegesData (files w) (read_path pathFile) = Inl e \<Longrightarrow>
   main_try w = (initial_statics, prompts, Inl e)"
  by (simp add: main_try_def case_prod_beta RankIntervalStrategy_new_def)

lemma main_try_ok:
  "files w ''data.txt'' = Some pathFile \<Longrightarrow> files w (read_path pathFile) = Some projectFile \<Longrightarrow>
   read_int (snd (read_name (stdin w))) = Some userRank \<Longrightarrow>
   loadCollegesData (files w) (read_path pathFile) = Inr collegesData \<Longrightarrow>
   main_try w =
     (\<lparr>totalInstances = 1\<rparr>,
      prompts @ ''Result: '' @ RankIntervalStrategy_allocateCollege collegesData userRank @ [CHR 0x0A]
        @ ''Result: not eligible for round two'' @ [CHR 0x0A]
        @ ''Result: not eligible for round three'' @ [CHR 0x0A]
        @ ''Total instances of RankIntervalStrategy: 1'' @ [CHR 0x0A],
      Inr ())"
  by (simp add: main_try_def case_prod_beta RankIntervalStrategy_new_def initial_statics_def
        getRankAllocation_def CollegeAdmissionSystem_allocateCollege_def getApplicantRank_def
        displayAllocationResult_def getTotalInstances_def string_of_int_1
        AnotherStrategy_allocateCollege_def YetAnotherStrategy_allocateCollege_def)

text \<open>The five ways through the body of \<open>main\<close>.\<close>

lemma main_try_cases:
  obtains
    (no_data) "files w ''data.txt'' = None"
  | (no_project) pathFile where "files w ''data.txt'' = Some pathFile"
      "files w (read_path pathFile) = None"
  | (bad_rank) pathFile projectFile where "files w ''data.txt'' = Some pathFile"
      "files w (read_path pathFile) = Some projectFile"
      "read_int (snd (read_name (stdin w))) = None"
  | (bad_data) pathFile projectFile userRank e where "files w ''data.txt'' = Some pathFile"
      "files w (read_path pathFile) = Some projectFile"
      "read_int (snd (read_name (stdin w))) = Some userRank"
      "loadCollegesData (files w) (read_path pathFile) = Inl e"
  | (ok) pathFile projectFile userRank collegesData where "files w ''data.txt'' = Some pathFile"
      "files w (read_path pathFile) = Some projectFile"
      "read_int (snd (read_name (stdin w))) = Some userRank"
      "loadCollegesData (files w) (read_path pathFile) = Inr collegesData"
proof (cases "files w ''data.txt''")
  case None
  then show ?thesis by (rule no_data)
next
  case (Some pathFile)
  note pf = this
  show ?thesis
  proof (cases "files w (read_path pathFile)")
    case None
    with pf show ?thesis by (rule no_project)
  next
    case (Some projectFile)
    note prj = this
    show ?thesis
    proof (cases "read_int (snd (read_name (stdin w)))")
      case None
      with pf prj show ?thesis by (rule bad_rank)
    next
      case (Some userRank)
      note rk = this
      show ?thesis
      proof (cases "loadCollegesData (files w) (read_path pathFile)")
        case (Inl e)
        with pf prj rk show ?thesis by (rule bad_data)
      next
        case (Inr collegesData)
        with pf prj rk show ?thesis by (rule ok)
      qed
    qed
  qed
qed







text \<open>
  C8. \<open>main\<close> returns 0 in every run. When the body ends with an exception, standard
  error holds the message of the exception and a newline, and standard output holds
  nothing or the two prompts, so no line "Result: ..." is printed. This is so for a
  missing \<open>data.txt\<close>, for a data file that cannot be opened and for a data file that
  cannot be parsed (for a rank that cannot be read, see C7).
\<close>

theorem main_always_exits_zero:
  "exit_status (main w) = 0 \<and>
   (\<forall>st out e. main_try w = (st, out, Inl e) \<longrightarrow>
      cerr (main w) = what w e @ [CHR 0x0A] \<and> cout (main w) = out \<and>
      (out = [] \<or> out = ''Enter your name: Enter your rank: '')) \<and>
   (\<forall>st out. main_try w = (st, out, Inr ()) \<longrightarrow> cerr (main w) = []) \<and>
   (files w ''data.txt'' = None \<longrightarrow>
      cerr (main w) = ''Error: Cannot open data.txt'' @ [CHR 0x0A] \<and> cout (main w) = []) \<and>
   (\<forall>pathFile. files w ''data.txt'' = Some pathFile \<and> files w (read_path pathFile) = None \<longrightarrow>
      cerr (main w) = ''Error: Cannot open project.txt'' @ [CHR 0x0A] \<and> cout (main w) = []) \<and>
   (\<forall>pathFile projectFile userRank e.
      files w ''data.txt'' = Some pathFile \<and> files w (read_path pathFile) = Some projectFile \<and>
      read_int (snd (read_name (stdin w))) = Some userRank \<and>
      loadCollegesData (files w) (read_path pathFile) = Inl e \<longrightarrow>
      cerr (main w) = what w e @ [CHR 0x0A] \<and>
      cout (main w) = ''Enter your name: Enter your rank: '')"
proof (cases w rule: main_try_cases)
  case no_data
  then show ?thesis
    by (simp add: main_def main_try_no_data)
next
  case (no_project pathFile)
  then show ?thesis
    by (simp add: main_def main_try_no_project)
next
  case (bad_rank pathFile projectFile)
  then show ?thesis
    by (simp add: main_def main_try_bad_rank [OF bad_rank] prompts_def)
next
  case (bad_data pathFile projectFile userRank e)
  then show ?thesis
    by (simp add: main_def main_try_bad_data [OF bad_data] prompts_def)
next
  case (ok pathFile projectFile userRank collegesData)
  then show ?thesis
    by (simp add: main_def main_try_ok [OF ok])
qed

theorem main_always_exits_zero_witness:
  "main (example_world ''broken.txt'' (''Ann Lee'' @ [CHR 0x0A] @ ''150'' @ [CHR 0x0A])) =
     \<lparr>cout = ''Enter your name: Enter your rank: '',
      cerr = ''Error: Invalid data format in the data file.'' @ [CHR 0x0A],
      exit_status = 0, statics_at_exit = \<lparr>totalInstances = 0\<rparr>\<rparr>"
proof -
  let ?w = "example_world ''broken.txt'' (''Ann Lee'' @ [CHR 0x0A] @ ''150'' @ [CHR 0x0A])"
  have data: "files ?w ''data.txt'' = Some (''broken.txt'' @ [CHR 0x0A])"
    by (simp add: example_world_def)
  have path: "read_path (''broken.txt'' @ [CHR 0x0A]) = ''broken.txt''"
    by code_simp
  have project: "files ?w (read_path (''broken.txt'' @ [CHR 0x0A])) = Some ''1-5''"
    unfolding path by (simp add: example_world_def example_files_def)
  have rank: "read_int (snd (read_name (stdin ?w))) = Some 150"
    by code_simp
  have broken: "loadCollegesData (files ?w) (read_path (''broken.txt'' @ [CHR 0x0A]))
      = Inl (runtime_error ''Error: Invalid data format in the data file.'')"
    by code_simp
  have body: "main_try ?w = (initial_statics, prompts,
      Inl (runtime_error ''Error: Invalid data format in the data file.''))"
    by (rule main_try_bad_data [OF data project rank broken])
  note t = main_always_exits_zero [of ?w]
  from t have "exit_status (main ?w) = 0" by blast
  moreover from t body
  have "cerr (main ?w) = what ?w (runtime_error ''Error: Invalid data format in the data file.'') @ [CHR 0x0A]"
    and "cout (main ?w) = prompts"
    by blast+
  moreover have "statics_at_exit (main ?w) = initial_statics"
    using body by (simp add: main_def)
  ultimately show ?thesis
    by (cases "main ?w") (simp add: initial_statics_def prompts_def)
qed

text \<open>
  C9. A run whose body ends without an exception has constructed exactly one
  \<open>RankIntervalStrategy\<close>: \<open>totalInstances\<close> is 1, and the last line on standard output
  is "Total instances of RankIntervalStrategy: 1", after the two prompts and the three
  lines "Result: ...".
\<close>

theorem successful_run_prints_one_instance:
  assumes "main_try w = (st, out, Inr u)"
  shows "getTotalInstances st = 1 \<and> statics_at_exit (main w) = \<lparr>totalInstances = 1\<rparr> \<and>
    cerr (main w) = [] \<and> exit_status (main w) = 0 \<and>
    (\<exists>pathFile collegesData userRank.
       files w ''data.txt'' = Some pathFile \<and>
       loadCollegesData (files w) (read_path pathFile) = Inr collegesData \<and>
       read_int (snd (read_name (stdin w))) = Some userRank \<and>
       cout (main w) =
         ''Enter your name: Enter your rank: '' @
         ''Result: '' @ RankIntervalStrategy_allocateCollege collegesData userRank @ [CHR 0x0A] @
         ''Result: not eligible for round two'' @ [CHR 0x0A] @
         ''Result: not eligible for round three'' @ [CHR 0x0A] @
         ''Total instances of RankIntervalStrategy: 1'' @ [CHR 0x0A])"
proof (cases w rule: main_try_cases)
  case no_data
  with assms show ?thesis by (simp add: main_try_no_data)
next
  case (no_project pathFile)
  with assms show ?thesis by (simp add: main_try_no_project)
next
  case (bad_rank pathFile projectFile)
  with assms show ?thesis by (simp add: main_try_bad_rank [OF bad_rank])
next
  case (bad_data pathFile projectFile userRank e)
  with assms show ?thesis by (simp add: main_try_bad_data [OF bad_data])
next
  case (ok pathFile projectFile userRank collegesData)
  note run = main_try_ok [OF ok]
  with assms have st: "st = \<lparr>totalInstances = 1\<rparr>" by simp
  have "cout (main w) =
         ''Enter your name: Enter your rank: '' @
         ''Result: '' @ RankIntervalStrategy_allocateCollege collegesData userRank @ [CHR 0x0A] @
         ''Result: not eligible for round two'' @ [CHR 0x0A] @
         ''Result: not eligible for round three'' @ [CHR 0x0A] @
         ''Total instances of RankIntervalStrategy: 1'' @ [CHR 0x0A]"
    by (simp add: main_def run prompts_def)
  with ok have "\<exists>pathFile collegesData userRank.
       files w ''data.txt'' = Some pathFile \<and>
       loadCollegesData (files w) (read_path pathFile) = Inr collegesData \<and>
       read_int (snd (read_name (stdin w))) = Some userRank \<and>
       cout (main w) =
         ''Enter your name: Enter your rank: '' @
         ''Result: '' @ RankIntervalStrategy_allocateCollege collegesData userRank @ [CHR 0x0A] @
         ''Result: not eligible for round two'' @ [CHR 0x0A] @
         ''Result: not eligible for round three'' @ [CHR 0x0A] @
         ''Total instances of RankIntervalStrategy: 1'' @ [CHR 0x0A]"
    by blast
  moreover have "statics_at_exit (main w) = \<lparr>totalInstances = 1\<rparr>" "cerr (main w) = []"
    "exit_status (main w) = 0"
    by (simp_all add: main_def run)
  ultimately show ?thesis using st by (simp add: getTotalInstances_def)
qed

theorem successful_run_prints_one_instance_witness:
  "main (example_world ''ranks.txt'' (''  Ann Lee'' @ [CHR 0x0A] @ ''150'' @ [CHR 0x0A])) =
     \<lparr>cout = ''Enter your name: Enter your rank: '' @
         ''Result: Tech U'' @ [CHR 0x0A] @
         ''Result: not eligible for round two'' @ [CHR 0x0A] @
         ''Result: not eligible for round three'' @ [CHR 0x0A] @
         ''Total instances of RankIntervalStrategy: 1'' @ [CHR 0x0A],
      cerr = [], exit_status = 0, statics_at_exit = \<lparr>totalInstances = 1\<rparr>\<rparr>"
proof -
  let ?w = "example_world ''ranks.txt'' (''  Ann Lee'' @ [CHR 0x0A] @ ''150'' @ [CHR 0x0A])"
  have data: "files ?w ''data.txt'' = Some (''ranks.txt'' @ [CHR 0x0A])"
    by (simp add: example_world_def)
  have path: "read_path (''ranks.txt'' @ [CHR 0x0A]) = ''ranks.txt''"
    by code_simp
  have project: "files ?w (read_path (''ranks.txt'' @ [CHR 0x0A])) = Some overlap_file"
    unfolding path by (simp add: example_world_def example_files_def)
  have rank: "read_int (snd (read_name (stdin ?w))) = Some 150"
    by code_simp
  have table: "loadCollegesData (files ?w) (read_path (''ranks.txt'' @ [CHR 0x0A])) = Inr overlap_table"
    by code_simp
  have alloc: "RankIntervalStrategy_allocateCollege overlap_table 150 = ''Tech U''"
    by code_simp
  note body = main_try_ok [OF data project rank table]
  note t = successful_run_prints_one_instance [OF body]
  from t data table rank have "cout (main ?w) =
         ''Enter your name: Enter your rank: '' @
         ''Result: '' @ RankIntervalStrategy_allocateCollege overlap_table 150 @ [CHR 0x0A] @
         ''Result: not eligible for round two'' @ [CHR 0x0A] @
         ''Result: not eligible for round three'' @ [CHR 0x0A] @
         ''Total instances of RankIntervalStrategy: 1'' @ [CHR 0x0A]"
    by auto
  moreover from t have "statics_at_exit (main ?w) = \<lparr>totalInstances = 1\<rparr>"
    and "cerr (main ?w) = []" and "exit_status (main ?w) = 0"
    by blast+
  ultimately show ?thesis
    using alloc by (cases "main ?w") simp
qed

end
